theory Spec2Isabelle
  imports Complex_Main
begin

section \<open>Data model of the server (server.js)\<close>

text \<open>
  Values that travel over the socket and into the board files are JSON. JavaScript
  numbers are doubles; they are represented by the reals, so rounding, NaN and the
  infinities are outside the model. A JavaScript object is an association list in
  property order, with distinct keys.
\<close>

datatype json =
    JNull
  | JBool bool
  | JNum real
  | JStr string
  | JArr "json list"
  | JObj "(string \<times> json) list"

type_synonym jobj = "(string \<times> json) list"

text \<open>JavaScript truthiness, as used by \<^verbatim>\<open>strokeData.id || uuidv4()\<close>.\<close>

fun truthy :: "json \<Rightarrow> bool" where
  "truthy JNull = False"
| "truthy (JBool b) = b"
| "truthy (JNum r) = (r \<noteq> 0)"
| "truthy (JStr s) = (s \<noteq> [])"
| "truthy (JArr _) = True"
| "truthy (JObj _) = True"

text \<open>Property assignment \<^verbatim>\<open>o[k] = v\<close>: an own key keeps its place, a new key goes last.\<close>

fun set_prop :: "string \<Rightarrow> json \<Rightarrow> jobj \<Rightarrow> jobj" where
  "set_prop k v [] = [(k, v)]"
| "set_prop k v ((k', v') # ps) =
     (if k' = k then (k, v) # ps else (k', v') # set_prop k v ps)"

text \<open>Object spread \<^verbatim>\<open>{ ...base, ...extra }\<close>: the properties of \<open>extra\<close> are assigned in order.\<close>

definition spread :: "jobj \<Rightarrow> jobj \<Rightarrow> jobj" where
  "spread base extra = foldl (\<lambda>obj (k, v). set_prop k v obj) base extra"

text \<open>Property read \<^verbatim>\<open>o.k\<close>; \<open>None\<close> is \<^verbatim>\<open>undefined\<close>.\<close>

definition get_prop :: "jobj \<Rightarrow> string \<Rightarrow> json option" where
  "get_prop obj k = map_of obj k"

text \<open>
  \<^verbatim>\<open>socket.userInfo\<close>: the identity a connection asserts. \<open>uid = None\<close> is the
  \<^verbatim>\<open>null\<close> id of the initial \<^verbatim>\<open>{ id: null, username: 'Anonymous' }\<close>.
\<close>

record userinfo =
  uid :: "string option"
  username :: string

datatype status = Online | Offline

record member =
  mid :: "string option"
  mname :: string
  mstatus :: status
  socketId :: "string option"

text \<open>
  The board document of one room. \<open>strokes\<close> holds the own properties of the object
  used as a dictionary from stroke id to stroke (what \<^verbatim>\<open>JSON.stringify\<close> writes and
  \<^verbatim>\<open>JSON.parse\<close> reads back); the properties the object inherits are modelled with
  the handlers that read it. \<open>bannedIPs\<close> is optional because the handlers guard
  against a document without the field.
\<close>

record board =
  roomId :: string
  owner :: "string option"
  createdAt :: int
  lastModified :: int
  expiryDate :: int
  strokes :: "string \<rightharpoonup> jobj"
  members :: "member list"
  bannedIPs :: "string list option"

text \<open>
  A connection: \<^verbatim>\<open>socket.userInfo\<close>, \<^verbatim>\<open>socket.currentRoom\<close>,
  \<^verbatim>\<open>socket.handshake.address\<close> and the rooms it has joined (the recipients of
  \<^verbatim>\<open>io.to(room)\<close>). The socket id is the key under which the connection is stored.
\<close>

record socket =
  userInfo :: userinfo
  currentRoom :: "string option"
  address :: string
  rooms :: "string set"

text \<open>
  The server state: the board files (one per room id) and the live connections
  (\<^verbatim>\<open>io.sockets.sockets\<close>).
\<close>

record server =
  boards :: "string \<rightharpoonup> board"
  sockets :: "string \<rightharpoonup> socket"

text \<open>What a handler sends: a callback reply, or an event to a room or to one socket.\<close>

datatype response =
    CreateOk string
  | JoinFail string
  | JoinOk board

datatype event =
    UpdateMembers "member list"
  | NewStroke json jobj
  | StrokeDeleted string
  | BoardCleared
  | UpdateCursor json userinfo
  | Kicked string

datatype sent =
    Reply string response
  | ToRoom string event
  | ToRoomExcept "string option" string event
  | ToSocket string event

section \<open>Board store\<close>

definition readBoard :: "server \<Rightarrow> string \<Rightarrow> board option" where
  "readBoard st rid = boards st rid"

text \<open>\<^verbatim>\<open>writeBoard\<close> stamps \<open>lastModified\<close> on the document and replaces the file.\<close>

definition stamp :: "int \<Rightarrow> board \<Rightarrow> board" where
  "stamp now b = b\<lparr>lastModified := now\<rparr>"

definition writeBoard :: "int \<Rightarrow> string \<Rightarrow> board \<Rightarrow> server \<Rightarrow> server" where
  "writeBoard now rid b st = st\<lparr>boards := (boards st)(rid \<mapsto> stamp now b)\<rparr>"

section \<open>Stroke handlers\<close>

text \<open>
  Each handler takes the clock (\<open>clk k\<close> is the k-th reading of \<^verbatim>\<open>Date.now()\<close>
  made while it runs), the id of the calling connection where the handler uses the
  connection, the payload and the server state, and returns the new state with the
  messages sent, in order. Where a handler reads the connection, an event from a
  connection that is not live changes nothing.
\<close>

text \<open>
  \<^verbatim>\<open>board.strokes\<close> is a plain object, so a read \<^verbatim>\<open>board.strokes[k]\<close> that finds
  no own property continues in \<^verbatim>\<open>Object.prototype\<close>. These are the names defined
  there; each holds a function or, for \<^verbatim>\<open>__proto__\<close>, the prototype object itself,
  all of them truthy.
\<close>

definition Object_prototype_names :: "string list" where
  "Object_prototype_names =
     [''constructor'', ''__defineGetter__'', ''__defineSetter__'', ''hasOwnProperty'',
      ''__lookupGetter__'', ''__lookupSetter__'', ''isPrototypeOf'',
      ''propertyIsEnumerable'', ''toString'', ''valueOf'', ''__proto__'',
      ''toLocaleString'']"

text \<open>
  The test \<^verbatim>\<open>if (board.strokes[k])\<close>: an own property holds a stroke object, which
  is truthy, and so is every inherited value.
\<close>

definition strokes_truthy :: "board \<Rightarrow> string \<Rightarrow> bool" where
  "strokes_truthy b k = (strokes b k \<noteq> None \<or> k \<in> set Object_prototype_names)"

text \<open>
  \<^verbatim>\<open>delete-stroke\<close>. \<^verbatim>\<open>delete board.strokes[strokeId]\<close> removes an own property
  and does nothing when there is none.
\<close>

definition delete_stroke ::
  "(nat \<Rightarrow> int) \<Rightarrow> string \<Rightarrow> string \<Rightarrow> server \<Rightarrow> server \<times> sent list" where
  "delete_stroke clk rid strokeId st =
     (case readBoard st rid of
        None \<Rightarrow> (st, [])
      | Some b \<Rightarrow>
          if strokes_truthy b strokeId
          then (writeBoard (clk 0) rid (b\<lparr>strokes := (strokes b)(strokeId := None)\<rparr>) st,
                [ToRoom rid (StrokeDeleted strokeId)])
          else (st, []))"

text \<open>\<^verbatim>\<open>clear-board\<close>: only for an existing board whose owner is the caller.\<close>

definition clear_board ::
  "(nat \<Rightarrow> int) \<Rightarrow> string \<Rightarrow> string \<Rightarrow> server \<Rightarrow> server \<times> sent list" where
  "clear_board clk sid rid st =
     (case sockets st sid of
        None \<Rightarrow> (st, [])
      | Some sock \<Rightarrow>
          (case readBoard st rid of
             None \<Rightarrow> (st, [])
           | Some b \<Rightarrow>
               if owner b = uid (userInfo sock)
               then (writeBoard (clk 0) rid (b\<lparr>strokes := Map.empty\<rparr>) st,
                     [ToRoom rid BoardCleared])
               else (st, [])))"

text \<open>
  \<^verbatim>\<open>add-stroke\<close>. \<open>uuid\<close> is the value \<^verbatim>\<open>uuidv4()\<close> returns when it is called,
  and \<open>toStr\<close> is JavaScript's conversion of a value that is not a string to a property
  key. The stored object is \<^verbatim>\<open>{ id: strokeId, ...strokeData }\<close>: the spread comes after
  the \<open>id\<close> property.

  The assignment \<^verbatim>\<open>board.strokes[key] = stored\<close> creates or replaces an own property,
  except for the key \<^verbatim>\<open>__proto__\<close> when it is not an own property: that assignment
  runs the inherited setter, which makes \<open>stored\<close> the prototype of
  \<^verbatim>\<open>board.strokes\<close> and adds no property, so nothing of it is written to the file.
  The read \<^verbatim>\<open>board.strokes[strokeId]\<close> for the broadcast returns \<open>stored\<close> in both
  cases.
\<close>

definition assign_stroke :: "string \<Rightarrow> jobj \<Rightarrow> (string \<rightharpoonup> jobj) \<Rightarrow> (string \<rightharpoonup> jobj)" where
  "assign_stroke key stored m =
     (if key = ''__proto__'' \<and> m key = None then m else m(key \<mapsto> stored))"

definition property_key :: "(json \<Rightarrow> string) \<Rightarrow> json \<Rightarrow> string" where
  "property_key toStr v = (case v of JStr s \<Rightarrow> s | _ \<Rightarrow> toStr v)"

definition add_stroke ::
  "(json \<Rightarrow> string) \<Rightarrow> string \<Rightarrow> (nat \<Rightarrow> int) \<Rightarrow> string \<Rightarrow> jobj \<Rightarrow> server
     \<Rightarrow> server \<times> sent list" where
  "add_stroke toStr uuid clk rid strokeData st =
     (case readBoard st rid of
        None \<Rightarrow> (st, [])
      | Some b \<Rightarrow>
          let strokeId = (case get_prop strokeData ''id'' of
                            None \<Rightarrow> JStr uuid
                          | Some v \<Rightarrow> if truthy v then v else JStr uuid);
              stored = spread [(''id'', strokeId)] strokeData;
              b' = b\<lparr>strokes := assign_stroke (property_key toStr strokeId) stored (strokes b)\<rparr>
          in (writeBoard (clk 0) rid b' st, [ToRoom rid (NewStroke strokeId stored)]))"

section \<open>Room management\<close>

text \<open>\<^verbatim>\<open>io.on("connection")\<close> and \<^verbatim>\<open>authenticate\<close>.\<close>

definition connect :: "string \<Rightarrow> string \<Rightarrow> server \<Rightarrow> server" where
  "connect sid addr st =
     st\<lparr>sockets := (sockets st)(sid \<mapsto>
        \<lparr>userInfo = \<lparr>uid = None, username = ''Anonymous''\<rparr>, currentRoom = None,
         address = addr, rooms = {}\<rparr>)\<rparr>"

definition authenticate :: "string \<Rightarrow> userinfo \<Rightarrow> server \<Rightarrow> server \<times> sent list" where
  "authenticate sid userData st =
     (case sockets st sid of
        None \<Rightarrow> (st, [])
      | Some sock \<Rightarrow> (st\<lparr>sockets := (sockets st)(sid \<mapsto> sock\<lparr>userInfo := userData\<rparr>)\<rparr>, []))"

text \<open>
  \<^verbatim>\<open>generateRoomId\<close> is \<^verbatim>\<open>Math.random().toString(36).substring(2, 8).toUpperCase()\<close>.
  The random number and its rendering in base 36 are built-ins: the rendering (a string
  such as \<^verbatim>\<open>0.4fzyo82mvyr\<close>, with digits \<^verbatim>\<open>0-9a-z\<close>) is the parameter \<open>rnd36\<close>.
  \<^verbatim>\<open>substring(2, 8)\<close> keeps the characters at positions 2 to 7 that exist.
\<close>

definition toUpperCase_char :: "char \<Rightarrow> char" where
  "toUpperCase_char c =
     (case map_of (zip ''abcdefghijklmnopqrstuvwxyz'' ''ABCDEFGHIJKLMNOPQRSTUVWXYZ'') c of
        None \<Rightarrow> c
      | Some u \<Rightarrow> u)"

definition substring :: "nat \<Rightarrow> nat \<Rightarrow> string \<Rightarrow> string" where
  "substring i j s = take (j - i) (drop i s)"

definition generateRoomId :: "string \<Rightarrow> string" where
  "generateRoomId rnd36 = map toUpperCase_char (substring 2 8 rnd36)"

definition BOARD_EXPIRY_DAYS :: int where
  "BOARD_EXPIRY_DAYS = 14"

definition create_room ::
  "string \<Rightarrow> (nat \<Rightarrow> int) \<Rightarrow> string \<Rightarrow> server \<Rightarrow> server \<times> sent list" where
  "create_room rnd36 clk sid st =
     (case sockets st sid of
        None \<Rightarrow> (st, [])
      | Some sock \<Rightarrow>
          let rid = generateRoomId rnd36;
              newBoard = \<lparr>roomId = rid, owner = uid (userInfo sock), createdAt = clk 0,
                          lastModified = clk 1,
                          expiryDate = clk 2 + BOARD_EXPIRY_DAYS * 24 * 60 * 60 * 1000,
                          strokes = Map.empty, members = [], bannedIPs = Some []\<rparr>
          in (writeBoard (clk 3) rid newBoard st, [Reply sid (CreateOk rid)]))"

text \<open>
  \<^verbatim>\<open>members.find(p)\<close> returns the first member satisfying \<open>p\<close>, and the handlers then
  assign to fields of that object: the first match is updated in place.
\<close>

fun update_first :: "('a \<Rightarrow> bool) \<Rightarrow> ('a \<Rightarrow> 'a) \<Rightarrow> 'a list \<Rightarrow> 'a list" where
  "update_first p f [] = []"
| "update_first p f (x # xs) = (if p x then f x # xs else x # update_first p f xs)"

definition banned :: "board \<Rightarrow> string \<Rightarrow> bool" where
  "banned b ip = (case bannedIPs b of None \<Rightarrow> False | Some ips \<Rightarrow> ip \<in> set ips)"

text \<open>\<^verbatim>\<open>if (socket.currentRoom) socket.leave(socket.currentRoom)\<close>: the empty string is falsy.\<close>

definition leave_current :: "socket \<Rightarrow> string set" where
  "leave_current sock =
     (case currentRoom sock of
        None \<Rightarrow> rooms sock
      | Some r \<Rightarrow> if r = [] then rooms sock else rooms sock - {r})"

text \<open>
  The member upsert of \<^verbatim>\<open>join-room\<close>: an existing member with the caller's id is set
  online with the caller's socket id, otherwise
  \<^verbatim>\<open>{ ...socket.userInfo, status: 'online', socketId: socket.id }\<close> is pushed.
\<close>

definition upsert_member :: "string \<Rightarrow> socket \<Rightarrow> member list \<Rightarrow> member list" where
  "upsert_member sid sock ms =
     (case find (\<lambda>m. mid m = uid (userInfo sock)) ms of
        Some _ \<Rightarrow>
          update_first (\<lambda>m. mid m = uid (userInfo sock))
            (\<lambda>m. m\<lparr>mstatus := Online, socketId := Some sid\<rparr>) ms
      | None \<Rightarrow>
          ms @ [\<lparr>mid = uid (userInfo sock), mname = username (userInfo sock),
                 mstatus = Online, socketId = Some sid\<rparr>])"

definition join_room ::
  "(nat \<Rightarrow> int) \<Rightarrow> string \<Rightarrow> string \<Rightarrow> server \<Rightarrow> server \<times> sent list" where
  "join_room clk sid rid st =
     (case sockets st sid of
        None \<Rightarrow> (st, [])
      | Some sock \<Rightarrow>
          (case readBoard st rid of
             None \<Rightarrow> (st, [Reply sid (JoinFail ''Room not found.'')])
           | Some b \<Rightarrow>
               if banned b (address sock)
               then (st, [Reply sid (JoinFail ''You are banned from this room.'')])
               else
                 let sock' = sock\<lparr>currentRoom := Some rid,
                                  rooms := insert rid (leave_current sock)\<rparr>;
                     b' = b\<lparr>members := upsert_member sid sock (members b)\<rparr>;
                     st' = writeBoard (clk 0) rid b'
                             (st\<lparr>sockets := (sockets st)(sid \<mapsto> sock')\<rparr>)
                 in (st', [Reply sid (JoinOk (stamp (clk 0) b')),
                           ToRoom rid (UpdateMembers (members b'))])))"

section \<open>Presence and moderation\<close>

text \<open>
  The \<^verbatim>\<open>disconnect\<close> listener of a connection, run with that connection's own
  fields: it marks offline the first member whose \<open>socketId\<close> is the connection's.
\<close>

definition on_disconnect ::
  "(nat \<Rightarrow> int) \<Rightarrow> string \<Rightarrow> socket \<Rightarrow> server \<Rightarrow> server \<times> sent list" where
  "on_disconnect clk sid sock st =
     (case currentRoom sock of
        None \<Rightarrow> (st, [])
      | Some r \<Rightarrow>
          if r = [] then (st, [])
          else
            (case readBoard st r of
               None \<Rightarrow> (st, [])
             | Some b \<Rightarrow>
                 (case find (\<lambda>m. socketId m = Some sid) (members b) of
                    None \<Rightarrow> (st, [])
                  | Some _ \<Rightarrow>
                      let ms = update_first (\<lambda>m. socketId m = Some sid)
                                 (\<lambda>m. m\<lparr>mstatus := Offline\<rparr>) (members b)
                      in (writeBoard (clk 0) r (b\<lparr>members := ms\<rparr>) st,
                          [ToRoom r (UpdateMembers ms)]))))"

text \<open>
  A connection closes (by the client, or by \<^verbatim>\<open>socket.disconnect()\<close> on the server):
  it leaves \<^verbatim>\<open>io.sockets.sockets\<close> and its rooms, then its \<^verbatim>\<open>disconnect\<close>
  listener runs, before \<^verbatim>\<open>disconnect()\<close> returns.
\<close>

definition disconnect ::
  "(nat \<Rightarrow> int) \<Rightarrow> string \<Rightarrow> server \<Rightarrow> server \<times> sent list" where
  "disconnect clk sid st =
     (case sockets st sid of
        None \<Rightarrow> (st, [])
      | Some sock \<Rightarrow> on_disconnect clk sid sock (st\<lparr>sockets := (sockets st)(sid := None)\<rparr>))"

text \<open>
  \<^verbatim>\<open>kick-user\<close>. The board is read once; the target's \<^verbatim>\<open>disconnect\<close> listener
  reads and writes the file on its own (clock reading 0), and the handler's
  \<^verbatim>\<open>writeBoard\<close> (clock reading 1) then replaces the file with its own copy.
\<close>

definition kick_user ::
  "(nat \<Rightarrow> int) \<Rightarrow> string \<Rightarrow> string \<Rightarrow> string option \<Rightarrow> server \<Rightarrow> server \<times> sent list" where
  "kick_user clk sid rid userIdToKick st =
     (case sockets st sid of
        None \<Rightarrow> (st, [])
      | Some sock \<Rightarrow>
          (case readBoard st rid of
             None \<Rightarrow> (st, [])
           | Some b \<Rightarrow>
               if owner b \<noteq> uid (userInfo sock) then (st, [])
               else
                 (case find (\<lambda>m. mid m = userIdToKick) (members b) of
                    None \<Rightarrow> (st, [])
                  | Some memberToKick \<Rightarrow>
                      let target = (case socketId memberToKick of
                                      None \<Rightarrow> None
                                    | Some t \<Rightarrow> map_option (Pair t) (sockets st t));
                          (b1, st1, out1) =
                            (case target of
                               None \<Rightarrow> (b, st, [])
                             | Some (t, targetSocket) \<Rightarrow>
                                 let ips = (case bannedIPs b of None \<Rightarrow> [] | Some l \<Rightarrow> l);
                                     (st', out') = disconnect clk t st
                                 in (b\<lparr>bannedIPs := Some (ips @ [address targetSocket])\<rparr>,
                                     st',
                                     ToSocket t
                                       (Kicked ''You have been kicked and banned from this room.'')
                                       # out'));
                          ms = update_first (\<lambda>m. mid m = userIdToKick)
                                 (\<lambda>m. m\<lparr>mstatus := Offline\<rparr>) (members b1)
                      in (writeBoard (clk 1) rid (b1\<lparr>members := ms\<rparr>) st1,
                          out1 @ [ToRoom rid (UpdateMembers ms)]))))"

text \<open>\<^verbatim>\<open>cursor-move\<close>: relayed to the caller's current room, the caller excepted.\<close>

definition cursor_move :: "string \<Rightarrow> json \<Rightarrow> server \<Rightarrow> server \<times> sent list" where
  "cursor_move sid data st =
     (case sockets st sid of
        None \<Rightarrow> (st, [])
      | Some sock \<Rightarrow>
          (st, [ToRoomExcept (currentRoom sock) sid (UpdateCursor data (userInfo sock))]))"

section \<open>Event dispatch\<close>

text \<open>
  The messages a client sends. The handlers registered with \<^verbatim>\<open>socket.on\<close> inside
  \<^verbatim>\<open>io.on("connection")\<close> are those of \<^verbatim>\<open>authenticate\<close>, \<^verbatim>\<open>create-room\<close>,
  \<^verbatim>\<open>join-room\<close>, \<^verbatim>\<open>add-stroke\<close>, \<^verbatim>\<open>delete-stroke\<close>, \<^verbatim>\<open>clear-board\<close>,
  \<^verbatim>\<open>cursor-move\<close>, \<^verbatim>\<open>viewport-update\<close> (empty body), \<^verbatim>\<open>kick-user\<close> and
  \<^verbatim>\<open>disconnect\<close>. The client also emits \<^verbatim>\<open>update-strokes\<close>; server.js registers
  no listener for it, and an event without a listener is dropped.
\<close>

datatype request =
    Authenticate userinfo
  | CreateRoom
  | JoinRoom string
  | AddStroke string jobj
  | DeleteStroke string string
  | UpdateStrokes string "string list" real real
  | ClearBoard string
  | CursorMove json
  | ViewportUpdate json
  | KickUser string "string option"
  | Disconnect

record builtins =
  now :: "nat \<Rightarrow> int"
  random36 :: string
  uuidv4 :: string
  toString :: "json \<Rightarrow> string"

fun receive :: "builtins \<Rightarrow> string \<Rightarrow> request \<Rightarrow> server \<Rightarrow> server \<times> sent list" where
  "receive e sid (Authenticate userData) st = authenticate sid userData st"
| "receive e sid CreateRoom st = create_room (random36 e) (now e) sid st"
| "receive e sid (JoinRoom rid) st = join_room (now e) sid rid st"
| "receive e sid (AddStroke rid strokeData) st =
     add_stroke (toString e) (uuidv4 e) (now e) rid strokeData st"
| "receive e sid (DeleteStroke rid strokeId) st = delete_stroke (now e) rid strokeId st"
| "receive e sid (UpdateStrokes rid strokeIds dx dy) st = (st, [])"
| "receive e sid (ClearBoard rid) st = clear_board (now e) sid rid st"
| "receive e sid (CursorMove data) st = cursor_move sid data st"
| "receive e sid (ViewportUpdate data) st = (st, [])"
| "receive e sid (KickUser rid userIdToKick) st = kick_user (now e) sid rid userIdToKick st"
| "receive e sid Disconnect st = disconnect (now e) sid st"

section \<open>The client (class WhiteboardApp)\<close>

text \<open>
  The client builds its strokes itself, with the fields \<^verbatim>\<open>id\<close>, \<^verbatim>\<open>color\<close>,
  \<^verbatim>\<open>size\<close> and \<^verbatim>\<open>points\<close>. \<^verbatim>\<open>this.strokes\<close> is an object used as a dictionary
  and enumerated in property order, hence an association list. Canvas styling and
  \<^verbatim>\<open>preventDefault\<close> are presentation and are left out.
\<close>

record point =
  px :: real
  py :: real

record stroke =
  stroke_id :: string
  stroke_color :: string
  stroke_size :: real
  points :: "point list"

record rect =
  rx :: real
  ry :: real
  rw :: real
  rh :: real

record camera =
  cam_x :: real
  cam_y :: real
  zoom :: real

datatype tool = Pen | Eraser | Move | Select

text \<open>The entries of the undo and redo stacks, by their \<^verbatim>\<open>type\<close> field.\<close>

datatype hist_op =
    HAdd string
  | HDelete string stroke
  | HMove "string list" real real
  | HClear "(string \<times> stroke) list"

text \<open>The messages the client emits to the server.\<close>

datatype emitted =
    EmitAddStroke string stroke
  | EmitDeleteStroke string string
  | EmitUpdateStrokes string "string list" real real
  | EmitClearBoard string

record client =
  c_roomId :: string
  c_strokes :: "(string \<times> stroke) list"
  isDrawing :: bool
  currentStroke :: "stroke option"
  isPanning :: bool
  isErasing :: bool
  currentTool :: tool
  cam :: camera
  selectionRect :: "rect option"
  selectedStrokeIds :: "string list"
  isSelecting :: bool
  isDraggingSelection :: bool
  accumulatedDrag :: point
  undoStack :: "hist_op list"
  redoStack :: "hist_op list"

datatype js_error = TypeError

subsection \<open>Camera\<close>







subsection \<open>History\<close>

text \<open>The stacks are arrays: \<^verbatim>\<open>push\<close> appends and \<^verbatim>\<open>pop\<close> takes the last element.\<close>

definition pushHistory :: "hist_op \<Rightarrow> client \<Rightarrow> client" where
  "pushHistory h c = c\<lparr>undoStack := undoStack c @ [h], redoStack := []\<rparr>"

definition redo :: "client \<Rightarrow> client \<times> emitted list" where
  "redo c =
     (if redoStack c = [] then (c, [])
      else
        let h = last (redoStack c);
            c1 = c\<lparr>redoStack := butlast (redoStack c)\<rparr>;
            out = (case h of
                     HAdd strokeId \<Rightarrow> []
                   | HDelete strokeId strokeData \<Rightarrow> [EmitDeleteStroke (c_roomId c1) strokeId]
                   | HMove strokeIds dx dy \<Rightarrow> [EmitUpdateStrokes (c_roomId c1) strokeIds dx dy]
                   | HClear before \<Rightarrow> [EmitClearBoard (c_roomId c1)])
        in (c1\<lparr>undoStack := undoStack c1 @ [h]\<rparr>, out))"

subsection \<open>Selection helpers\<close>

text \<open>
  \<^verbatim>\<open>strokeBoundingBox\<close>: the loop starts from plus and minus infinity, which the first
  point replaces, so the running minima and maxima start at the first point.
\<close>

definition strokeBoundingBox :: "stroke \<Rightarrow> rect" where
  "strokeBoundingBox s =
     (case points s of
        [] \<Rightarrow> \<lparr>rx = 0, ry = 0, rw = 0, rh = 0\<rparr>
      | p # ps \<Rightarrow>
          let minX = foldl (\<lambda>m q. if px q < m then px q else m) (px p) ps;
              minY = foldl (\<lambda>m q. if py q < m then py q else m) (py p) ps;
              maxX = foldl (\<lambda>m q. if px q > m then px q else m) (px p) ps;
              maxY = foldl (\<lambda>m q. if py q > m then py q else m) (py p) ps
          in \<lparr>rx = minX, ry = minY, rw = maxX - minX, rh = maxY - minY\<rparr>)"

definition rectsIntersect :: "rect \<Rightarrow> rect \<Rightarrow> bool" where
  "rectsIntersect a b =
     (rx a < rx b + rw b \<and> rx a + rw a > rx b \<and> ry a < ry b + rh b \<and> ry a + rh a > ry b)"

subsection \<open>Pointer release\<close>

definition delete_key :: "string \<Rightarrow> (string \<times> 'a) list \<Rightarrow> (string \<times> 'a) list" where
  "delete_key k ps = filter (\<lambda>p. fst p \<noteq> k) ps"

text \<open>
  The first half of \<^verbatim>\<open>onPointerUp\<close>: the end of a pen stroke. Reading
  \<^verbatim>\<open>this.currentStroke.id\<close> of a null stroke throws.
\<close>

definition finish_drawing :: "client \<Rightarrow> js_error + client \<times> emitted list" where
  "finish_drawing c =
     (if isDrawing c then
        let c1 = c\<lparr>isDrawing := False\<rparr> in
        (case currentStroke c1 of
           None \<Rightarrow> Inl TypeError
         | Some s \<Rightarrow>
             if length (points s) > 1
             then Inr ((pushHistory (HAdd (stroke_id s)) c1)\<lparr>currentStroke := None\<rparr>,
                       [EmitAddStroke (c_roomId c1) s])
             else Inr (c1\<lparr>c_strokes := delete_key (stroke_id s) (c_strokes c1),
                           currentStroke := None\<rparr>, []))
      else Inr (c, []))"

text \<open>The second half: the end of a marquee selection or of a drag of the selection.\<close>

definition finish_selection :: "client \<Rightarrow> client \<times> emitted list" where
  "finish_selection c =
     (if currentTool c = Select then
        (case (if isSelecting c then selectionRect c else None) of
           Some r \<Rightarrow>
             (c\<lparr>selectedStrokeIds :=
                   map fst (filter (\<lambda>(i, s). rectsIntersect (strokeBoundingBox s) r) (c_strokes c)),
                 isSelecting := False\<rparr>, [])
         | None \<Rightarrow>
             if isDraggingSelection c then
               let c1 = c\<lparr>isDraggingSelection := False\<rparr> in
               if px (accumulatedDrag c1) \<noteq> 0 \<or> py (accumulatedDrag c1) \<noteq> 0 then
                 let ids = selectedStrokeIds c1;
                     dx = px (accumulatedDrag c1);
                     dy = py (accumulatedDrag c1)
                 in (pushHistory (HMove ids dx dy) c1, [EmitUpdateStrokes (c_roomId c1) ids dx dy])
               else (c1, [])
             else (c, []))
      else (c, []))"

definition onPointerUp :: "client \<Rightarrow> js_error + client \<times> emitted list" where
  "onPointerUp c =
     (case finish_drawing (c\<lparr>isPanning := False, isErasing := False\<rparr>) of
        Inl e \<Rightarrow> Inl e
      | Inr (c1, out1) \<Rightarrow>
          let (c2, out2) = finish_selection c1 in Inr (c2, out1 @ out2))"

section \<open>Example states\<close>

text \<open>
  A room \<^verbatim>\<open>ABC123\<close> owned by user \<open>u1\<close>, holding one stroke \<open>s1\<close>, with the owner and
  user \<open>u2\<close> (connected from 1.2.3.4) as members, and two further connections of a
  user \<open>u3\<close> who has not joined yet.
\<close>

definition ex_clock :: "nat \<Rightarrow> int" where
  "ex_clock k = 1700000000000 + int k"

definition ex_points :: json where
  "ex_points = JArr [JObj [(''x'', JNum 0), (''y'', JNum 0)],
                     JObj [(''x'', JNum 10), (''y'', JNum 10)]]"

definition ex_stroke :: jobj where
  "ex_stroke = [(''id'', JStr ''s1''), (''color'', JStr ''#000000''), (''size'', JNum 5),
                (''points'', ex_points)]"

definition ex_board :: board where
  "ex_board =
     \<lparr>roomId = ''ABC123'', owner = Some ''u1'', createdAt = 0, lastModified = 0,
      expiryDate = 1209600000, strokes = [''s1'' \<mapsto> ex_stroke],
      members = [\<lparr>mid = Some ''u1'', mname = ''ann'', mstatus = Online, socketId = Some ''k1''\<rparr>,
                 \<lparr>mid = Some ''u2'', mname = ''bob'', mstatus = Online, socketId = Some ''k2''\<rparr>],
      bannedIPs = Some []\<rparr>"

definition ex_socket :: "string \<Rightarrow> string \<Rightarrow> string \<Rightarrow> string option \<Rightarrow> socket" where
  "ex_socket u n a r =
     \<lparr>userInfo = \<lparr>uid = Some u, username = n\<rparr>, currentRoom = r, address = a,
      rooms = (case r of None \<Rightarrow> {} | Some x \<Rightarrow> {x})\<rparr>"

definition ex_server :: server where
  "ex_server =
     \<lparr>boards = [''ABC123'' \<mapsto> ex_board],
      sockets = [''k1'' \<mapsto> ex_socket ''u1'' ''ann'' ''10.0.0.1'' (Some ''ABC123''),
                 ''k2'' \<mapsto> ex_socket ''u2'' ''bob'' ''1.2.3.4'' (Some ''ABC123''),
                 ''k3'' \<mapsto> ex_socket ''u3'' ''cat'' ''10.0.0.3'' None,
                 ''k4'' \<mapsto> ex_socket ''u3'' ''cat'' ''10.0.0.4'' None]\<rparr>"

text \<open>
  A client in the middle of a pen stroke, with an earlier stroke \<open>s1\<close> on its board and
  an undone \<open>add\<close> on its redo stack.
\<close>

definition ex_line :: stroke where
  "ex_line = \<lparr>stroke_id = ''s1'', stroke_color = ''#000000'', stroke_size = 5,
               points = [\<lparr>px = 0, py = 0\<rparr>, \<lparr>px = 10, py = 10\<rparr>]\<rparr>"

definition ex_pen :: "point list \<Rightarrow> stroke" where
  "ex_pen ps = \<lparr>stroke_id = ''temp-1700000000000'', stroke_color = ''#000000'',
                stroke_size = 5, points = ps\<rparr>"

definition ex_client :: "point list \<Rightarrow> client" where
  "ex_client ps =
     \<lparr>c_roomId = ''ABC123'', c_strokes = [(''s1'', ex_line), (''temp-1700000000000'', ex_pen ps)],
      isDrawing = True, currentStroke = Some (ex_pen ps), isPanning = False,
      isErasing = False, currentTool = Pen, cam = \<lparr>cam_x = 0, cam_y = 0, zoom = 1\<rparr>,
      selectionRect = None, selectedStrokeIds = [], isSelecting = False,
      isDraggingSelection = False, accumulatedDrag = \<lparr>px = 0, py = 0\<rparr>,
      undoStack = [], redoStack = [HAdd ''temp-1600000000000'']\<rparr>"

section \<open>Helper lemmas\<close>

lemma find_Some_holds: "find p xs = Some x \<Longrightarrow> p x"
  by (induction xs) (auto split: if_splits)

lemma find_None_filter: "find p xs = None \<Longrightarrow> filter p xs = []"
  by (induction xs) (auto split: if_splits)

lemma find_Some_filter: "find p xs = Some x \<Longrightarrow> filter p xs \<noteq> []"
  by (induction xs) (auto split: if_splits)

lemma find_append_hit: "p x \<Longrightarrow> find p (xs @ [x]) \<noteq> None"
  by (induction xs) auto

lemma length_update_first: "length (update_first p f xs) = length xs"
  by (induction xs) auto

lemma filter_update_first:
  assumes "\<And>x. q (f x) = q x"
  shows "length (filter q (update_first p f xs)) = length (filter q xs)"
  using assms by (induction xs) auto

lemma find_update_first:
  assumes "find p xs = Some x" and "p (f x)"
  shows "find p (update_first p f xs) = Some (f x)"
  using assms by (induction xs) (auto split: if_splits)

lemma map_of_set_prop: "map_of (set_prop k v obj) = (map_of obj)(k \<mapsto> v)"
  by (induction obj) (auto simp: fun_eq_iff)

lemma map_of_spread: "map_of (spread base extra) = map_of base ++ map_of (rev extra)"
  unfolding spread_def
  by (induction extra arbitrary: base)
     (auto simp: map_of_set_prop map_add_def fun_eq_iff split: option.splits)

lemma map_of_rev_distinct:
  assumes "distinct (map fst ps)"
  shows "map_of (rev ps) k = map_of ps k"
  using assms
proof (induction ps)
  case Nil
  show ?case by simp
next
  case (Cons p ps)
  show ?case
  proof (cases "fst p = k")
    case True
    then have "k \<notin> fst ` set ps"
      using Cons.prems by auto
    then have "map_of (rev ps) k = None"
      by (simp add: map_of_eq_None_iff)
    with True show ?thesis
      by (cases p) (simp add: map_add_def)
  next
    case False
    with Cons show ?thesis
      by (cases p) (simp add: map_add_def split: option.splits)
  qed
qed

lemma map_of_delete_key: "map_of (delete_key k ps) k = None"
  by (induction ps) (auto simp: delete_key_def)



section \<open>Stroke mutation protocol\<close>

text \<open>
  Claim C1 says that the server, on \<^verbatim>\<open>update-strokes {roomId, strokeIds, dx, dy}\<close>,
  translates the named strokes in the persisted board, saves it and broadcasts
  \<^verbatim>\<open>strokes-updated\<close> to the room except the sender. The client emits the event
  and listens for the broadcast, but server.js registers no listener: for the room
  \<^verbatim>\<open>ABC123\<close> holding stroke \<open>s1\<close> with points (0,0) and (10,10), the request to
  move \<open>s1\<close> by (5,-3) leaves the server state as it was, the points of \<open>s1\<close>
  included, and sends nothing.
\<close>

theorem update_strokes_dropped:
  "receive e ''k2'' (UpdateStrokes ''ABC123'' [''s1''] 5 (-3)) ex_server = (ex_server, [])
   \<and> (\<exists>b. readBoard ex_server ''ABC123'' = Some b \<and> strokes b ''s1'' = Some ex_stroke
          \<and> get_prop ex_stroke ''points'' = Some ex_points)"
  by (simp add: ex_server_def ex_board_def readBoard_def get_prop_def ex_stroke_def)

text \<open>
  Claim C3: a \<^verbatim>\<open>clear-board\<close> request whose caller's identity differs from the
  board's owner leaves the server state unchanged (so the strokes are unchanged and
  nothing is persisted) and sends no message, \<^verbatim>\<open>board-cleared\<close> included.
\<close>

theorem clear_board_non_owner:
  assumes "sockets st sid = Some sock" and "readBoard st rid = Some b"
    and "owner b \<noteq> uid (userInfo sock)"
  shows "clear_board clk sid rid st = (st, [])"
  using assms by (simp add: clear_board_def)

theorem clear_board_non_owner_witness:
  "sockets ex_server ''k2'' = Some (ex_socket ''u2'' ''bob'' ''1.2.3.4'' (Some ''ABC123''))
   \<and> readBoard ex_server ''ABC123'' = Some ex_board
   \<and> owner ex_board \<noteq> uid (userInfo (ex_socket ''u2'' ''bob'' ''1.2.3.4'' (Some ''ABC123'')))
   \<and> clear_board ex_clock ''k2'' ''ABC123'' ex_server = (ex_server, [])"
proof -
  have 1: "sockets ex_server ''k2'' = Some (ex_socket ''u2'' ''bob'' ''1.2.3.4'' (Some ''ABC123''))"
    by (simp add: ex_server_def)
  have 2: "readBoard ex_server ''ABC123'' = Some ex_board"
    by (simp add: ex_server_def readBoard_def)
  have 3: "owner ex_board \<noteq> uid (userInfo (ex_socket ''u2'' ''bob'' ''1.2.3.4'' (Some ''ABC123'')))"
    by (simp add: ex_board_def ex_socket_def)
  from clear_board_non_owner [OF 1 2 3, of ex_clock] 1 2 3 show ?thesis by simp
qed

text \<open>
  Claim C5 says that \<^verbatim>\<open>delete-stroke\<close> is idempotent and that, when the id is absent
  from the strokes, the handler changes nothing, persists nothing and sends no
  \<^verbatim>\<open>stroke-deleted\<close>. The handler tests \<^verbatim>\<open>if (board.strokes[strokeId])\<close>, which is
  truthy for a name inherited from \<^verbatim>\<open>Object.prototype\<close>: for the id
  \<^verbatim>\<open>constructor\<close>, absent from the strokes of room \<^verbatim>\<open>ABC123\<close>, the handler writes
  the board file (with a new \<open>lastModified\<close>) and broadcasts \<^verbatim>\<open>stroke-deleted\<close>, and
  a second delete of the same id writes and broadcasts again.
\<close>

theorem delete_stroke_inherited_name:
  "readBoard ex_server ''ABC123'' = Some ex_board
   \<and> strokes ex_board ''constructor'' = None
   \<and> delete_stroke ex_clock ''ABC123'' ''constructor'' ex_server
       = (writeBoard (ex_clock 0) ''ABC123'' ex_board ex_server,
          [ToRoom ''ABC123'' (StrokeDeleted ''constructor'')])
   \<and> readBoard (fst (delete_stroke ex_clock ''ABC123'' ''constructor'' ex_server)) ''ABC123''
       \<noteq> readBoard ex_server ''ABC123''
   \<and> snd (delete_stroke ex_clock ''ABC123'' ''constructor''
             (fst (delete_stroke ex_clock ''ABC123'' ''constructor'' ex_server)))
       = [ToRoom ''ABC123'' (StrokeDeleted ''constructor'')]"
proof -
  have rb: "readBoard ex_server ''ABC123'' = Some ex_board"
    by (simp add: ex_server_def readBoard_def)
  have absent: "strokes ex_board ''constructor'' = None"
    by (simp add: ex_board_def)
  have truthy: "strokes_truthy b ''constructor''" for b
    by (simp add: strokes_truthy_def Object_prototype_names_def)
  have same: "ex_board\<lparr>strokes := (strokes ex_board)(''constructor'' := None)\<rparr> = ex_board"
    using absent by (simp add: fun_upd_idem)
  have run: "delete_stroke ex_clock ''ABC123'' ''constructor'' ex_server
               = (writeBoard (ex_clock 0) ''ABC123'' ex_board ex_server,
                  [ToRoom ''ABC123'' (StrokeDeleted ''constructor'')])"
    by (simp add: delete_stroke_def rb truthy same)
  have rb': "readBoard (writeBoard (ex_clock 0) ''ABC123'' ex_board ex_server) ''ABC123''
               = Some (stamp (ex_clock 0) ex_board)"
    by (simp add: readBoard_def writeBoard_def)
  have "lastModified (stamp (ex_clock 0) ex_board) \<noteq> lastModified ex_board"
    by (simp add: stamp_def ex_clock_def ex_board_def)
  then have changed: "stamp (ex_clock 0) ex_board \<noteq> ex_board"
    by auto
  have again: "snd (delete_stroke ex_clock ''ABC123'' ''constructor''
                      (writeBoard (ex_clock 0) ''ABC123'' ex_board ex_server))
                 = [ToRoom ''ABC123'' (StrokeDeleted ''constructor'')]"
    by (simp add: delete_stroke_def rb' truthy)
  show ?thesis
    using rb absent changed again by (simp add: run rb')
qed

text \<open>
  For comparison: for an id that is not a name of \<^verbatim>\<open>Object.prototype\<close>, a second
  delete returns the state of the first and sends nothing, and an absent id leaves the
  state unchanged with no message.
\<close>

lemma delete_stroke_twice_own_name:
  assumes "k \<notin> set Object_prototype_names"
  shows "delete_stroke clk' rid k (fst (delete_stroke clk rid k st))
           = (fst (delete_stroke clk rid k st), [])"
    and "readBoard st rid = Some b \<Longrightarrow> strokes b k = None
           \<Longrightarrow> delete_stroke clk rid k st = (st, [])"
  using assms
  by (auto simp: delete_stroke_def strokes_truthy_def readBoard_def writeBoard_def stamp_def
        split: option.splits)

text \<open>
  Claim C6 says that every key of the strokes map equals the \<open>id\<close> of the stroke stored
  under it, also after \<^verbatim>\<open>add-stroke\<close> with a \<open>strokeData\<close> whose \<open>id\<close> is empty or
  null. The handler computes the key as \<^verbatim>\<open>strokeData.id || uuidv4()\<close> but stores
  \<^verbatim>\<open>{ id: strokeId, ...strokeData }\<close>, so the \<open>id\<close> of \<open>strokeData\<close> overwrites the
  key: with the id \<^verbatim>\<open>""\<close> (and likewise with \<^verbatim>\<open>null\<close>) the stroke is stored under
  the generated id and carries the empty (or null) id.
\<close>

theorem add_stroke_falsy_id:
  "(\<exists>b obj. readBoard (fst (add_stroke toStr ''uuid-1'' clk ''ABC123''
                  [(''id'', JStr []), (''points'', ex_points)] ex_server)) ''ABC123'' = Some b
       \<and> strokes b ''uuid-1'' = Some obj
       \<and> get_prop obj ''id'' = Some (JStr [])
       \<and> get_prop obj ''id'' \<noteq> Some (JStr ''uuid-1''))
   \<and> (\<exists>b obj. readBoard (fst (add_stroke toStr ''uuid-1'' clk ''ABC123''
                  [(''id'', JNull), (''points'', ex_points)] ex_server)) ''ABC123'' = Some b
       \<and> strokes b ''uuid-1'' = Some obj
       \<and> get_prop obj ''id'' = Some JNull
       \<and> get_prop obj ''id'' \<noteq> Some (JStr ''uuid-1''))"
  by (simp add: add_stroke_def ex_server_def readBoard_def writeBoard_def stamp_def
        get_prop_def spread_def property_key_def assign_stroke_def Let_def)

text \<open>
  For comparison: when \<open>strokeData\<close> has no \<open>id\<close>, or a non-empty string as \<open>id\<close>, and
  the resulting key is not \<^verbatim>\<open>__proto__\<close>, the stroke is stored under the key that it
  carries as \<open>id\<close>.
\<close>

lemma add_stroke_key_is_id:
  assumes "readBoard st rid = Some b"
    and "distinct (map fst strokeData)"
    and "get_prop strokeData ''id'' = None \<and> key = uuid
         \<or> key \<noteq> [] \<and> get_prop strokeData ''id'' = Some (JStr key)"
    and "key \<noteq> ''__proto__''"
  shows "\<exists>b' obj.
           readBoard (fst (add_stroke toStr uuid clk rid strokeData st)) rid = Some b'
         \<and> strokes b' key = Some obj \<and> get_prop obj ''id'' = Some (JStr key)
         \<and> snd (add_stroke toStr uuid clk rid strokeData st)
             = [ToRoom rid (NewStroke (JStr key) obj)]"
proof -
  define strokeId where
    "strokeId = (case get_prop strokeData ''id'' of
                   None \<Rightarrow> JStr uuid
                 | Some v \<Rightarrow> if truthy v then v else JStr uuid)"
  define obj where "obj = spread [(''id'', strokeId)] strokeData"
  have key: "strokeId = JStr key"
    and own: "get_prop strokeData ''id'' = None \<or> get_prop strokeData ''id'' = Some (JStr key)"
    using assms(3) by (auto simp: strokeId_def)
  have "map_of obj ''id'' = (map_of [(''id'', strokeId)] ++ map_of strokeData) ''id''"
    by (simp add: obj_def map_of_spread map_add_def map_of_rev_distinct [OF assms(2)])
  also have "\<dots> = Some (JStr key)"
    using own key by (auto simp: get_prop_def map_add_def)
  finally have id: "get_prop obj ''id'' = Some (JStr key)"
    by (simp add: get_prop_def)
  have run: "add_stroke toStr uuid clk rid strokeData st
               = (writeBoard (clk 0) rid (b\<lparr>strokes := (strokes b)(key \<mapsto> obj)\<rparr>) st,
                  [ToRoom rid (NewStroke (JStr key) obj)])"
    using assms(1,4) key
    by (simp add: add_stroke_def Let_def property_key_def assign_stroke_def
          strokeId_def [symmetric] obj_def)
  have "readBoard (fst (add_stroke toStr uuid clk rid strokeData st)) rid
          = Some (stamp (clk 0) (b\<lparr>strokes := (strokes b)(key \<mapsto> obj)\<rparr>))"
    by (simp add: run readBoard_def writeBoard_def)
  moreover have "strokes (stamp (clk 0) (b\<lparr>strokes := (strokes b)(key \<mapsto> obj)\<rparr>)) key = Some obj"
    by (simp add: stamp_def)
  ultimately show ?thesis
    using id run by auto
qed

section \<open>Room management and moderation\<close>

text \<open>
  Claim C2 says that \<^verbatim>\<open>create-room\<close> always replies with a room id of 6 characters
  and that loading that id yields a board with empty strokes, empty members and the
  caller as owner. The id is \<^verbatim>\<open>Math.random().toString(36).substring(2, 8)\<close> in upper
  case, which is shorter than 6 characters when the base-36 rendering has fewer than 8:
  for the random number 0.5, rendered \<^verbatim>\<open>0.i\<close>, the reply carries the id \<^verbatim>\<open>I\<close>.
\<close>

theorem create_room_short_id:
  "snd (create_room ''0.i'' clk ''k1'' ex_server) = [Reply ''k1'' (CreateOk ''I'')]
   \<and> length (generateRoomId ''0.i'') = 1"
  by (simp add: create_room_def ex_server_def generateRoomId_def substring_def
        toUpperCase_char_def Let_def)

text \<open>
  The rest of the sentence holds: the id has 6 characters whenever the rendering has
  at least 8, and the board stored under the replied id is empty and owned by the
  caller.
\<close>

lemma generateRoomId_length: "length (generateRoomId r) = min 6 (length r - 2)"
  by (simp add: generateRoomId_def substring_def)

lemma create_room_board:
  assumes "sockets st sid = Some sock"
  shows "\<exists>b. snd (create_room r clk sid st) = [Reply sid (CreateOk (generateRoomId r))]
           \<and> readBoard (fst (create_room r clk sid st)) (generateRoomId r) = Some b
           \<and> strokes b = Map.empty \<and> members b = [] \<and> owner b = uid (userInfo sock)"
  using assms by (simp add: create_room_def readBoard_def writeBoard_def stamp_def Let_def)

lemma join_room_success:
  assumes "sockets st sid = Some sock" and "readBoard st rid = Some b"
    and "\<not> banned b (address sock)"
  shows "readBoard (fst (join_room clk sid rid st)) rid
           = Some (stamp (clk 0) (b\<lparr>members := upsert_member sid sock (members b)\<rparr>))"
  using assms
  by (simp add: join_room_def Let_def readBoard_def writeBoard_def)

lemma join_room_banned:
  assumes "sockets st sid = Some sock" and "readBoard st rid = Some b"
    and "banned b (address sock)"
  shows "join_room clk sid rid st = (st, [Reply sid (JoinFail ''You are banned from this room.'')])"
  using assms by (simp add: join_room_def)

lemma find_upsert:
  "\<exists>m. find (\<lambda>m. mid m = uid (userInfo sock)) (upsert_member sid sock ms) = Some m"
proof (cases "find (\<lambda>m. mid m = uid (userInfo sock)) ms")
  case None
  then show ?thesis
    using find_append_hit [of "\<lambda>m. mid m = uid (userInfo sock)" _ ms]
    by (fastforce simp: upsert_member_def)
next
  case (Some x)
  have "mid x = uid (userInfo sock)"
    using find_Some_holds [OF Some] .
  then show ?thesis
    using Some find_update_first [of "\<lambda>m. mid m = uid (userInfo sock)" ms x
        "\<lambda>m. m\<lparr>mstatus := Online, socketId := Some sid\<rparr>"]
    by (simp add: upsert_member_def)
qed

lemma count_upsert:
  "length (filter (\<lambda>m. mid m = uid (userInfo sock)) (upsert_member sid sock ms))
     = max 1 (length (filter (\<lambda>m. mid m = uid (userInfo sock)) ms))"
proof (cases "find (\<lambda>m. mid m = uid (userInfo sock)) ms")
  case None
  then show ?thesis
    by (simp add: upsert_member_def find_None_filter)
next
  case (Some x)
  have "1 \<le> length (filter (\<lambda>m. mid m = uid (userInfo sock)) ms)"
    using find_Some_filter [OF Some] by (simp add: Suc_le_eq)
  with Some show ?thesis
    by (simp add: upsert_member_def filter_update_first max_def)
qed

text \<open>
  Claim C7: joining a room twice with the same member id does not add a second entry.
  When a connection joins a room and then a connection asserting the same member id
  joins it (both joins admitted), the second join leaves the length of \<open>members\<close>
  unchanged: it only updates the first record with that id, whose status is then
  online and whose \<open>socketId\<close> is the second connection's; the number of records with
  that id is 1 if there was at most one before the first join.
\<close>

theorem join_twice_one_member:
  assumes s1: "sockets st s1 = Some k1" and b0: "readBoard st rid = Some b0"
    and nb1: "\<not> banned b0 (address k1)"
    and s2: "sockets (fst (join_room clk1 s1 rid st)) s2 = Some k2"
    and same: "uid (userInfo k2) = uid (userInfo k1)"
    and nb2: "\<not> banned b0 (address k2)"
  shows "\<exists>b1 b2 m.
           readBoard (fst (join_room clk1 s1 rid st)) rid = Some b1
         \<and> readBoard (fst (join_room clk2 s2 rid (fst (join_room clk1 s1 rid st)))) rid = Some b2
         \<and> length (members b2) = length (members b1)
         \<and> members b2 = update_first (\<lambda>m. mid m = uid (userInfo k1))
                           (\<lambda>m. m\<lparr>mstatus := Online, socketId := Some s2\<rparr>) (members b1)
         \<and> find (\<lambda>m. mid m = uid (userInfo k1)) (members b2) = Some m
         \<and> mstatus m = Online \<and> socketId m = Some s2
         \<and> length (filter (\<lambda>m. mid m = uid (userInfo k1)) (members b2))
             = max 1 (length (filter (\<lambda>m. mid m = uid (userInfo k1)) (members b0)))"
proof -
  let ?me = "\<lambda>m. mid m = uid (userInfo k1)"
  let ?on = "\<lambda>m. m\<lparr>mstatus := Online, socketId := Some s2\<rparr>"
  let ?st1 = "fst (join_room clk1 s1 rid st)"
  let ?b1 = "stamp (clk1 0) (b0\<lparr>members := upsert_member s1 k1 (members b0)\<rparr>)"
  let ?b2 = "stamp (clk2 0) (?b1\<lparr>members := upsert_member s2 k2 (members ?b1)\<rparr>)"
  have r1: "readBoard ?st1 rid = Some ?b1"
    by (rule join_room_success [OF s1 b0 nb1])
  have nb2': "\<not> banned ?b1 (address k2)"
    using nb2 by (simp add: banned_def stamp_def)
  have r2: "readBoard (fst (join_room clk2 s2 rid ?st1)) rid = Some ?b2"
    by (rule join_room_success [OF s2 r1 nb2'])
  have m1: "members ?b1 = upsert_member s1 k1 (members b0)"
    by (simp add: stamp_def)
  obtain x where x: "find ?me (members ?b1) = Some x"
    using find_upsert [of k1 s1 "members b0"] m1 by auto
  have m2: "members ?b2 = update_first ?me ?on (members ?b1)"
    using x same by (simp add: stamp_def upsert_member_def)
  have f2: "find ?me (members ?b2) = Some (?on x)"
  proof -
    have "?me x" using find_Some_holds [OF x] .
    then have "?me (?on x)" by simp
    from find_update_first [of ?me "members ?b1" x ?on, OF x this] m2
    show ?thesis by simp
  qed
  have c2: "length (filter ?me (members ?b2)) = max 1 (length (filter ?me (members b0)))"
    using count_upsert [of k1 s1 "members b0"] m1 m2
    by (simp add: filter_update_first)
  show ?thesis
    using r1 r2 m2 f2 c2 by (intro exI [of _ ?b1] exI [of _ ?b2] exI [of _ "?on x"])
      (simp add: length_update_first)
qed

theorem join_twice_one_member_witness:
  "sockets ex_server ''k3'' = Some (ex_socket ''u3'' ''cat'' ''10.0.0.3'' None)
   \<and> readBoard ex_server ''ABC123'' = Some ex_board
   \<and> \<not> banned ex_board ''10.0.0.3'' \<and> \<not> banned ex_board ''10.0.0.4''
   \<and> sockets (fst (join_room ex_clock ''k3'' ''ABC123'' ex_server)) ''k4''
       = Some (ex_socket ''u3'' ''cat'' ''10.0.0.4'' None)
   \<and> (\<exists>b1 b2 m.
         readBoard (fst (join_room ex_clock ''k3'' ''ABC123'' ex_server)) ''ABC123'' = Some b1
       \<and> readBoard (fst (join_room ex_clock ''k4'' ''ABC123''
                          (fst (join_room ex_clock ''k3'' ''ABC123'' ex_server)))) ''ABC123''
           = Some b2
       \<and> length (members b2) = length (members b1)
       \<and> find (\<lambda>m. mid m = Some ''u3'') (members b2) = Some m
       \<and> mstatus m = Online \<and> socketId m = Some ''k4''
       \<and> length (filter (\<lambda>m. mid m = Some ''u3'') (members b2)) = 1)"
proof -
  let ?k3 = "ex_socket ''u3'' ''cat'' ''10.0.0.3'' None"
  let ?k4 = "ex_socket ''u3'' ''cat'' ''10.0.0.4'' None"
  have 1: "sockets ex_server ''k3'' = Some ?k3"
    by (simp add: ex_server_def)
  have 2: "readBoard ex_server ''ABC123'' = Some ex_board"
    by (simp add: ex_server_def readBoard_def)
  have 3: "\<not> banned ex_board (address ?k3)" and 6: "\<not> banned ex_board (address ?k4)"
    by (simp_all add: banned_def ex_board_def ex_socket_def)
  have 4: "sockets (fst (join_room ex_clock ''k3'' ''ABC123'' ex_server)) ''k4'' = Some ?k4"
    using 3 by (simp add: join_room_def ex_server_def readBoard_def writeBoard_def Let_def)
  have 5: "uid (userInfo ?k4) = uid (userInfo ?k3)"
    by (simp add: ex_socket_def)
  have 7: "filter (\<lambda>m. mid m = Some ''u3'') (members ex_board) = []"
    by (simp add: ex_board_def)
  have a: "address ?k3 = ''10.0.0.3''" "address ?k4 = ''10.0.0.4''" "uid (userInfo ?k3) = Some ''u3''"
    by (simp_all add: ex_socket_def)
  from join_twice_one_member [OF 1 2 3(1) 4 5 6, of ex_clock] 1 2 3 4 6 7 a
  show ?thesis by (simp del: One_nat_def) blast
qed

lemma on_disconnect_sockets: "sockets (fst (on_disconnect clk s k st)) = sockets st"
  by (auto simp: on_disconnect_def writeBoard_def Let_def split: option.splits)

lemma disconnect_removes:
  "sockets st t = Some k \<Longrightarrow> sockets (fst (disconnect clk t st)) t = None"
  by (simp add: disconnect_def on_disconnect_sockets)

lemma kick_user_live:
  assumes "sockets st sid = Some sock" and "readBoard st rid = Some b"
    and "owner b = uid (userInfo sock)"
    and "find (\<lambda>m. mid m = target) (members b) = Some m"
    and "socketId m = Some t" and "sockets st t = Some tsock"
  shows "kick_user clk sid rid target st =
           (let ips = (case bannedIPs b of None \<Rightarrow> [] | Some l \<Rightarrow> l);
                ms = update_first (\<lambda>m. mid m = target) (\<lambda>m. m\<lparr>mstatus := Offline\<rparr>) (members b)
            in (writeBoard (clk 1) rid
                  (b\<lparr>bannedIPs := Some (ips @ [address tsock]), members := ms\<rparr>)
                  (fst (disconnect clk t st)),
                ToSocket t (Kicked ''You have been kicked and banned from this room.'')
                  # snd (disconnect clk t st) @ [ToRoom rid (UpdateMembers ms)]))"
  using assms
  by (simp add: kick_user_def Let_def split_beta)

text \<open>
  Claim C4: when the owner issues \<^verbatim>\<open>kick-user\<close> for a member whose \<open>socketId\<close> is a
  live connection, the board persisted afterwards has that connection's address
  appended to \<open>bannedIPs\<close> and the target member offline, the connection is closed, the
  member list is broadcast to the room, and every later \<^verbatim>\<open>join-room\<close> for this board
  from that address is answered \<^verbatim>\<open>{success: false}\<close> with the banned message and
  changes nothing.
\<close>

theorem kick_user_bans_address:
  assumes caller: "sockets st sid = Some sock" and board: "readBoard st rid = Some b"
    and own: "owner b = uid (userInfo sock)"
    and found: "find (\<lambda>m. mid m = target) (members b) = Some m"
    and sock_id: "socketId m = Some t" and live: "sockets st t = Some tsock"
  shows "\<exists>b' m'.
           readBoard (fst (kick_user clk sid rid target st)) rid = Some b'
         \<and> bannedIPs b' = Some ((case bannedIPs b of None \<Rightarrow> [] | Some l \<Rightarrow> l) @ [address tsock])
         \<and> find (\<lambda>m. mid m = target) (members b') = Some m' \<and> mstatus m' = Offline
         \<and> sockets (fst (kick_user clk sid rid target st)) t = None
         \<and> ToRoom rid (UpdateMembers (members b')) \<in> set (snd (kick_user clk sid rid target st))
         \<and> (\<forall>st2 sid2 sock2 clk2.
               readBoard st2 rid = Some b' \<and> sockets st2 sid2 = Some sock2
               \<and> address sock2 = address tsock
               \<longrightarrow> join_room clk2 sid2 rid st2
                     = (st2, [Reply sid2 (JoinFail ''You are banned from this room.'')]))"
proof -
  let ?ips = "(case bannedIPs b of None \<Rightarrow> [] | Some l \<Rightarrow> l) @ [address tsock]"
  let ?off = "\<lambda>m. m\<lparr>mstatus := Offline\<rparr>"
  let ?ms = "update_first (\<lambda>m. mid m = target) ?off (members b)"
  let ?b' = "stamp (clk 1) (b\<lparr>bannedIPs := Some ?ips, members := ?ms\<rparr>)"
  let ?res = "kick_user clk sid rid target st"
  note k = kick_user_live [OF caller board own found sock_id live, of clk]
  have rb: "readBoard (fst ?res) rid = Some ?b'"
    by (simp add: k Let_def readBoard_def writeBoard_def)
  have ips: "bannedIPs ?b' = Some ?ips"
    by (simp add: stamp_def)
  have "mid m = target"
    using find_Some_holds [OF found] .
  then have fm: "find (\<lambda>m. mid m = target) (members ?b') = Some (?off m)"
    using find_update_first [of "\<lambda>m. mid m = target" "members b" m ?off, OF found]
    by (simp add: stamp_def)
  have gone: "sockets (fst ?res) t = None"
    using disconnect_removes [OF live, of clk] by (simp add: k Let_def writeBoard_def)
  have bc: "ToRoom rid (UpdateMembers (members ?b')) \<in> set (snd ?res)"
    by (simp add: k Let_def stamp_def)
  have ban: "banned ?b' (address tsock)"
    by (simp add: banned_def stamp_def)
  have rejoin: "join_room clk2 sid2 rid st2
                  = (st2, [Reply sid2 (JoinFail ''You are banned from this room.'')])"
    if "readBoard st2 rid = Some ?b'" and "sockets st2 sid2 = Some sock2"
      and "address sock2 = address tsock" for st2 sid2 sock2 clk2
    using that ban join_room_banned [of st2 sid2 sock2 rid ?b' clk2] by simp
  show ?thesis
    using rb ips fm gone bc rejoin
    by (intro exI [of _ ?b'] exI [of _ "?off m"]) (simp del: set_append)
qed

theorem kick_user_bans_address_witness:
  "sockets ex_server ''k1'' = Some (ex_socket ''u1'' ''ann'' ''10.0.0.1'' (Some ''ABC123''))
   \<and> readBoard ex_server ''ABC123'' = Some ex_board
   \<and> owner ex_board = uid (userInfo (ex_socket ''u1'' ''ann'' ''10.0.0.1'' (Some ''ABC123'')))
   \<and> find (\<lambda>m. mid m = Some ''u2'') (members ex_board)
       = Some \<lparr>mid = Some ''u2'', mname = ''bob'', mstatus = Online, socketId = Some ''k2''\<rparr>
   \<and> sockets ex_server ''k2'' = Some (ex_socket ''u2'' ''bob'' ''1.2.3.4'' (Some ''ABC123''))
   \<and> (\<exists>b' m'. readBoard (fst (kick_user ex_clock ''k1'' ''ABC123'' (Some ''u2'') ex_server))
                  ''ABC123'' = Some b'
         \<and> bannedIPs b' = Some [''1.2.3.4'']
         \<and> find (\<lambda>m. mid m = Some ''u2'') (members b') = Some m' \<and> mstatus m' = Offline)
   \<and> join_room ex_clock ''k9'' ''ABC123''
        (connect ''k9'' ''1.2.3.4''
           (fst (kick_user ex_clock ''k1'' ''ABC123'' (Some ''u2'') ex_server)))
       = (connect ''k9'' ''1.2.3.4''
            (fst (kick_user ex_clock ''k1'' ''ABC123'' (Some ''u2'') ex_server)),
          [Reply ''k9'' (JoinFail ''You are banned from this room.'')])"
proof -
  let ?k1 = "ex_socket ''u1'' ''ann'' ''10.0.0.1'' (Some ''ABC123'')"
  let ?k2 = "ex_socket ''u2'' ''bob'' ''1.2.3.4'' (Some ''ABC123'')"
  let ?bob = "\<lparr>mid = Some ''u2'', mname = ''bob'', mstatus = Online, socketId = Some ''k2''\<rparr>"
  let ?st' = "fst (kick_user ex_clock ''k1'' ''ABC123'' (Some ''u2'') ex_server)"
  let ?st2 = "connect ''k9'' ''1.2.3.4'' ?st'"
  let ?k9 = "\<lparr>userInfo = \<lparr>uid = None, username = ''Anonymous''\<rparr>, currentRoom = None,
              address = ''1.2.3.4'', rooms = {}\<rparr>"
  have 1: "sockets ex_server ''k1'' = Some ?k1"
    by (simp add: ex_server_def)
  have 2: "readBoard ex_server ''ABC123'' = Some ex_board"
    by (simp add: ex_server_def readBoard_def)
  have 3: "owner ex_board = uid (userInfo ?k1)"
    by (simp add: ex_board_def ex_socket_def)
  have 4: "find (\<lambda>m. mid m = Some ''u2'') (members ex_board) = Some ?bob"
    by (simp add: ex_board_def)
  have 5: "socketId ?bob = Some ''k2''"
    by simp
  have 6: "sockets ex_server ''k2'' = Some ?k2"
    by (simp add: ex_server_def)
  have ip: "address ?k2 = ''1.2.3.4''" and none: "bannedIPs ex_board = Some []"
    by (simp_all add: ex_socket_def ex_board_def)
  from kick_user_bans_address [OF 1 2 3 4 5 6, of ex_clock]
  obtain b' m' where rb: "readBoard ?st' ''ABC123'' = Some b'"
    and ips: "bannedIPs b' = Some [''1.2.3.4'']"
    and off: "find (\<lambda>m. mid m = Some ''u2'') (members b') = Some m'" "mstatus m' = Offline"
    and rejoin: "\<And>st2 sid2 sock2 clk2.
          readBoard st2 ''ABC123'' = Some b' \<and> sockets st2 sid2 = Some sock2
          \<and> address sock2 = ''1.2.3.4''
          \<Longrightarrow> join_room clk2 sid2 ''ABC123'' st2
                = (st2, [Reply sid2 (JoinFail ''You are banned from this room.'')])"
    unfolding ip none by auto
  have "readBoard ?st2 ''ABC123'' = Some b'" and "sockets ?st2 ''k9'' = Some ?k9"
    using rb by (simp_all add: connect_def readBoard_def)
  then have "join_room ex_clock ''k9'' ''ABC123'' ?st2
               = (?st2, [Reply ''k9'' (JoinFail ''You are banned from this room.'')])"
    using rejoin [of ?st2 "''k9''" ?k9 ex_clock] by simp
  with 1 2 3 4 6 rb ips off show ?thesis
    by blast
qed

section \<open>Client\<close>




lemma finish_selection_strokes: "c_strokes (fst (finish_selection c)) = c_strokes c"
  by (auto simp: finish_selection_def pushHistory_def Let_def split: option.splits)

lemma finish_selection_emits:
  "set (snd (finish_selection c)) \<subseteq> {EmitUpdateStrokes (c_roomId c) (selectedStrokeIds c)
       (px (accumulatedDrag c)) (py (accumulatedDrag c))}"
  by (auto simp: finish_selection_def Let_def split: option.splits)

text \<open>
  Claim C9: when a pen stroke ends (\<^verbatim>\<open>onPointerUp\<close> while drawing) with fewer than 2
  points, the client removes it from its local strokes (the entry under its id is
  deleted and every other entry stays, in order) and no \<^verbatim>\<open>add-stroke\<close> is emitted;
  with at least 2 points the stroke is emitted in an \<^verbatim>\<open>add-stroke\<close> for the room and
  the local strokes are left as they are.
\<close>

theorem short_stroke_discarded:
  assumes "isDrawing c" and "currentStroke c = Some s"
  shows "\<exists>c' out. onPointerUp c = Inr (c', out)
         \<and> (if length (points s) < 2
             then c_strokes c' = filter (\<lambda>p. fst p \<noteq> stroke_id s) (c_strokes c)
                  \<and> map_of (c_strokes c') (stroke_id s) = None
                  \<and> (\<forall>r s'. EmitAddStroke r s' \<notin> set out)
             else c_strokes c' = c_strokes c
                  \<and> EmitAddStroke (c_roomId c) s \<in> set out)"
proof (cases "length (points s) < 2")
  case True
  let ?c1 = "c\<lparr>isPanning := False, isErasing := False, isDrawing := False,
               c_strokes := delete_key (stroke_id s) (c_strokes c), currentStroke := None\<rparr>"
  have fd: "finish_drawing (c\<lparr>isPanning := False, isErasing := False\<rparr>) = Inr (?c1, [])"
    using assms True by (simp add: finish_drawing_def Let_def)
  obtain c2 out2 where fs: "finish_selection ?c1 = (c2, out2)"
    by (cases "finish_selection ?c1")
  have up: "onPointerUp c = Inr (c2, out2)"
    by (simp add: onPointerUp_def fd fs)
  have "c_strokes c2 = c_strokes ?c1"
    using finish_selection_strokes [of ?c1] by (simp add: fs)
  then have frame: "c_strokes c2 = filter (\<lambda>p. fst p \<noteq> stroke_id s) (c_strokes c)"
    by (simp add: delete_key_def)
  have "map_of (c_strokes c2) (stroke_id s) = None"
    using finish_selection_strokes [of ?c1] by (simp add: fs map_of_delete_key)
  moreover have "\<forall>r s'. EmitAddStroke r s' \<notin> set out2"
    using finish_selection_emits [of ?c1] by (auto simp: fs)
  ultimately show ?thesis
    using True up frame by simp
next
  case False
  let ?c1 = "(pushHistory (HAdd (stroke_id s))
               (c\<lparr>isPanning := False, isErasing := False, isDrawing := False\<rparr>))
             \<lparr>currentStroke := None\<rparr>"
  have fd: "finish_drawing (c\<lparr>isPanning := False, isErasing := False\<rparr>)
              = Inr (?c1, [EmitAddStroke (c_roomId c) s])"
    using assms False by (simp add: finish_drawing_def Let_def)
  obtain c2 out2 where fs: "finish_selection ?c1 = (c2, out2)"
    by (cases "finish_selection ?c1")
  have up: "onPointerUp c = Inr (c2, EmitAddStroke (c_roomId c) s # out2)"
    by (simp add: onPointerUp_def fd fs)
  have "c_strokes c2 = c_strokes ?c1"
    using finish_selection_strokes [of ?c1] by (simp add: fs)
  then have frame: "c_strokes c2 = c_strokes c"
    by (simp add: pushHistory_def)
  show ?thesis
    using False up frame by simp
qed

theorem short_stroke_discarded_witness:
  "isDrawing (ex_client [\<lparr>px = 3, py = 4\<rparr>])
   \<and> currentStroke (ex_client [\<lparr>px = 3, py = 4\<rparr>]) = Some (ex_pen [\<lparr>px = 3, py = 4\<rparr>])
   \<and> c_strokes (ex_client [\<lparr>px = 3, py = 4\<rparr>])
       = [(''s1'', ex_line), (''temp-1700000000000'', ex_pen [\<lparr>px = 3, py = 4\<rparr>])]
   \<and> (\<exists>c'. onPointerUp (ex_client [\<lparr>px = 3, py = 4\<rparr>]) = Inr (c', [])
          \<and> c_strokes c' = [(''s1'', ex_line)])
   \<and> isDrawing (ex_client [\<lparr>px = 3, py = 4\<rparr>, \<lparr>px = 5, py = 6\<rparr>])
   \<and> currentStroke (ex_client [\<lparr>px = 3, py = 4\<rparr>, \<lparr>px = 5, py = 6\<rparr>])
       = Some (ex_pen [\<lparr>px = 3, py = 4\<rparr>, \<lparr>px = 5, py = 6\<rparr>])
   \<and> (\<exists>c' out. onPointerUp (ex_client [\<lparr>px = 3, py = 4\<rparr>, \<lparr>px = 5, py = 6\<rparr>]) = Inr (c', out)
          \<and> c_strokes c'
              = [(''s1'', ex_line),
                 (''temp-1700000000000'', ex_pen [\<lparr>px = 3, py = 4\<rparr>, \<lparr>px = 5, py = 6\<rparr>])]
          \<and> EmitAddStroke ''ABC123'' (ex_pen [\<lparr>px = 3, py = 4\<rparr>, \<lparr>px = 5, py = 6\<rparr>]) \<in> set out)"
proof -
  let ?dot = "[\<lparr>px = 3, py = 4\<rparr>]"
  let ?line = "[\<lparr>px = 3, py = 4\<rparr>, \<lparr>px = 5, py = 6\<rparr>]"
  have 1: "isDrawing (ex_client ps)" and 2: "currentStroke (ex_client ps) = Some (ex_pen ps)"
    and 3: "c_strokes (ex_client ps) = [(''s1'', ex_line), (''temp-1700000000000'', ex_pen ps)]"
    for ps
    by (simp_all add: ex_client_def)
  have id: "stroke_id (ex_pen ps) = ''temp-1700000000000''" for ps
    by (simp add: ex_pen_def)
  have short: "onPointerUp (ex_client ?dot)
      = Inr ((ex_client ?dot)\<lparr>isDrawing := False, c_strokes := [(''s1'', ex_line)],
                               currentStroke := None\<rparr>, [])"
    by (simp add: onPointerUp_def finish_drawing_def finish_selection_def ex_client_def
          ex_pen_def delete_key_def Let_def)
  from short_stroke_discarded [OF 1 2, of ?dot]
  have a: "\<exists>c'. onPointerUp (ex_client ?dot) = Inr (c', []) \<and> c_strokes c' = [(''s1'', ex_line)]"
    by (simp add: short 3 id ex_pen_def)
  from short_stroke_discarded [OF 1 2, of ?line]
  have b: "\<exists>c' out. onPointerUp (ex_client ?line) = Inr (c', out)
             \<and> c_strokes c' = [(''s1'', ex_line), (''temp-1700000000000'', ex_pen ?line)]
             \<and> EmitAddStroke ''ABC123'' (ex_pen ?line) \<in> set out"
    by (simp add: 3 ex_pen_def ex_client_def)
  from a b 1 2 3 show ?thesis
    by simp
qed

text \<open>
  Claim C10: \<^verbatim>\<open>redo\<close> with an entry of type \<open>add\<close> on top of the redo stack emits
  nothing and leaves the local strokes unchanged; the entry only moves from the redo
  stack to the top of the undo stack.
\<close>

theorem redo_add_is_silent:
  assumes "redoStack c \<noteq> []" and "last (redoStack c) = HAdd strokeId"
  shows "snd (redo c) = []
       \<and> c_strokes (fst (redo c)) = c_strokes c
       \<and> undoStack (fst (redo c)) = undoStack c @ [HAdd strokeId]
       \<and> redoStack (fst (redo c)) = butlast (redoStack c)"
  using assms by (simp add: redo_def Let_def)

theorem redo_add_is_silent_witness:
  "redoStack (ex_client []) \<noteq> []
   \<and> last (redoStack (ex_client [])) = HAdd ''temp-1600000000000''
   \<and> snd (redo (ex_client [])) = []
   \<and> c_strokes (fst (redo (ex_client []))) = c_strokes (ex_client [])
   \<and> undoStack (fst (redo (ex_client []))) = [HAdd ''temp-1600000000000'']
   \<and> redoStack (fst (redo (ex_client []))) = []"
proof -
  have 1: "redoStack (ex_client []) \<noteq> []"
    and 2: "last (redoStack (ex_client [])) = HAdd ''temp-1600000000000''"
    by (simp_all add: ex_client_def)
  from redo_add_is_silent [OF 1 2] 1 2 show ?thesis
    by (simp add: ex_client_def)
qed

end
